theory Spec2Isabelle
  imports Complex_Main
begin

section \<open>JavaScript values\<close>

text \<open>
  The content script \<^verbatim>\<open>content-optimized.js\<close> reads JSON delivered by the portal's API
  and text scraped from the portal's markup. A value is what \<^verbatim>\<open>JSON.parse\<close> can build,
  plus \<^verbatim>\<open>undefined\<close> for an absent property.

  Strings are char lists. The theorems concern ASCII text, where a char is one UTF-16 code
  unit and \<^verbatim>\<open>substring\<close> is \<open>take\<close>; the only non-ASCII output of the model, the
  infinity sign of \<^verbatim>\<open>toLocaleString\<close>, is written as its UTF-8 bytes.

  A number is NaN, an infinity, negative zero or a finite value kept as a rational (every
  finite double is one). An object is the association list of its own properties.
\<close>

datatype jsnum = NaN | PosInf | NegInf | NegZero | Fin rat

datatype jsval =
    JUndefined
  | JNull
  | JBool bool
  | JNum jsnum
  | JStr string
  | JArr "jsval list"
  | JObj "(string \<times> jsval) list"

datatype js_error =
    TypeError
  | ApiRequestFailed int
  | FetchRejected
  | InvalidJson
  | NotFoundError
  | Thrown string

text \<open>\<^verbatim>\<open>!!v\<close>: the falsy values are undefined, null, false, 0, -0, NaN and the empty string.\<close>

fun truthy :: "jsval \<Rightarrow> bool" where
  "truthy JUndefined = False"
| "truthy JNull = False"
| "truthy (JBool b) = b"
| "truthy (JNum n) = (n \<noteq> NaN \<and> n \<noteq> NegZero \<and> n \<noteq> Fin 0)"
| "truthy (JStr s) = (s \<noteq> [])"
| "truthy (JArr xs) = True"
| "truthy (JObj kvs) = True"

text \<open>\<^verbatim>\<open>a || b\<close>\<close>

definition jsOr :: "jsval \<Rightarrow> jsval \<Rightarrow> jsval" where
  "jsOr a b = (if truthy a then a else b)"

text \<open>
  \<^verbatim>\<open>v.k\<close> for the property names the script reads (items, documents, data, uuid, id,
  internalId, totalAmount, ...): a TypeError on null and undefined, the own property of an
  object, and undefined on every other value (no prototype has a property of those names).
\<close>

fun getProp :: "jsval \<Rightarrow> string \<Rightarrow> js_error + jsval" where
  "getProp JUndefined k = Inl TypeError"
| "getProp JNull k = Inl TypeError"
| "getProp (JObj kvs) k = Inr (case map_of kvs k of None \<Rightarrow> JUndefined | Some v \<Rightarrow> v)"
| "getProp v k = Inr JUndefined"

definition bindE :: "js_error + 'a \<Rightarrow> ('a \<Rightarrow> js_error + 'b) \<Rightarrow> js_error + 'b" where
  "bindE m f = (case m of Inl e \<Rightarrow> Inl e | Inr v \<Rightarrow> f v)"

fun mapE :: "('a \<Rightarrow> js_error + 'b) \<Rightarrow> 'a list \<Rightarrow> js_error + 'b list" where
  "mapE f [] = Inr []"
| "mapE f (x # xs) = bindE (f x) (\<lambda>y. bindE (mapE f xs) (\<lambda>ys. Inr (y # ys)))"

section \<open>Amounts: parseFloat and toLocaleString\<close>

definition isDigit :: "char \<Rightarrow> bool" where
  "isDigit c = (48 \<le> (of_char c :: nat) \<and> (of_char c :: nat) \<le> 57)"

definition isSpace :: "char \<Rightarrow> bool" where
  "isSpace c = ((of_char c :: nat) \<in> {9, 10, 11, 12, 13, 32})"

definition digitChar :: "nat \<Rightarrow> char" where
  "digitChar d = ''0123456789'' ! d"

text \<open>The value of a run of decimal digits, most significant first.\<close>

definition digitsValue :: "string \<Rightarrow> nat" where
  "digitsValue ds = foldl (\<lambda>acc c. 10 * acc + ((of_char c :: nat) - 48)) 0 ds"

text \<open>The exponent part of a decimal literal: e or E, an optional sign, at least one digit.\<close>

definition exponentPart :: "string \<Rightarrow> int" where
  "exponentPart s =
     (case s of
        [] \<Rightarrow> 0
      | c # r \<Rightarrow>
          if c = CHR ''e'' \<or> c = CHR ''E'' then
            (case r of
               [] \<Rightarrow> 0
             | d # r' \<Rightarrow>
                 if d = CHR ''-'' then
                   (if takeWhile isDigit r' = [] then 0 else - int (digitsValue (takeWhile isDigit r')))
                 else if d = CHR ''+'' then
                   (if takeWhile isDigit r' = [] then 0 else int (digitsValue (takeWhile isDigit r')))
                 else
                   (if takeWhile isDigit r = [] then 0 else int (digitsValue (takeWhile isDigit r))))
          else 0)"

definition pow10 :: "int \<Rightarrow> rat" where
  "pow10 k = (if 0 \<le> k then 10 ^ nat k else 1 / 10 ^ nat (- k))"

text \<open>
  A parsed magnitude as a number. At or above \<open>2^1024 - 2^970\<close> a double overflows to
  infinity. Below that the value of the literal is kept exactly: the rounding to the
  nearest double is not modelled.
\<close>

definition mkNumber :: "bool \<Rightarrow> rat \<Rightarrow> jsnum" where
  "mkNumber neg v =
     (if v = 0 then (if neg then NegZero else Fin 0)
      else if 2 ^ 1024 - 2 ^ 970 \<le> v then (if neg then NegInf else PosInf)
      else Fin (if neg then - v else v))"

text \<open>
  \<^verbatim>\<open>parseFloat\<close> on a string: leading white space is dropped, then the longest prefix
  that is a decimal literal is read (sign, Infinity, digits with an optional fraction
  and an optional exponent); NaN when there is none.
\<close>

definition parseFloatStr :: "string \<Rightarrow> jsnum" where
  "parseFloatStr s =
     (let t = dropWhile isSpace s;
          neg = (t \<noteq> [] \<and> hd t = CHR ''-'');
          u = (if t \<noteq> [] \<and> (hd t = CHR ''-'' \<or> hd t = CHR ''+'') then tl t else t)
      in if take 8 u = ''Infinity'' then (if neg then NegInf else PosInf)
         else
           let ip = takeWhile isDigit u;
               r1 = dropWhile isDigit u;
               hasDot = (r1 \<noteq> [] \<and> hd r1 = CHR ''.'');
               fp = (if hasDot then takeWhile isDigit (tl r1) else []);
               r2 = (if hasDot then dropWhile isDigit (tl r1) else r1)
           in if ip = [] \<and> fp = [] then NaN
              else mkNumber neg
                     (of_nat (digitsValue (ip @ fp)) * pow10 (exponentPart r2 - int (length fp))))"

text \<open>
  \<^verbatim>\<open>parseFloat(v)\<close> converts \<open>v\<close> to a string first. A number prints and reads back as
  itself (negative zero prints as 0); undefined, null, booleans and objects print as text
  that starts no literal; an array prints its elements joined by commas, so only its
  first element can be read.
\<close>

fun parseFloat :: "jsval \<Rightarrow> jsnum" where
  "parseFloat (JStr s) = parseFloatStr s"
| "parseFloat (JNum n) = (if n = NegZero then Fin 0 else n)"
| "parseFloat (JArr (x # xs)) = parseFloat x"
| "parseFloat v = NaN"

function decimalDigits :: "nat \<Rightarrow> string" where
  "decimalDigits n =
     (if n < 10 then [digitChar n] else decimalDigits (n div 10) @ [digitChar (n mod 10)])"
  by pat_completeness auto
termination
  by (relation "measure id") auto

declare decimalDigits.simps [simp del]

text \<open>en-US grouping: a comma before every group of three digits, counted from the right.\<close>

fun groupRev :: "string \<Rightarrow> string" where
  "groupRev (a # b # c # d # rest) = a # b # c # CHR '','' # groupRev (d # rest)"
| "groupRev xs = xs"

definition groupThousands :: "string \<Rightarrow> string" where
  "groupThousands s = rev (groupRev (rev s))"

text \<open>
  \<^verbatim>\<open>x.toLocaleString('en-US', {minimumFractionDigits: 2, maximumFractionDigits: 2})\<close>:
  the magnitude is rounded to hundredths, halves away from zero, and printed with grouped
  integer digits, a point and two fraction digits; a negative number keeps its sign.
\<close>

definition hundredths :: "rat \<Rightarrow> nat" where
  "hundredths q = nat \<lfloor>\<bar>q\<bar> * 100 + 1 / 2\<rfloor>"

definition fixed2 :: "nat \<Rightarrow> string" where
  "fixed2 h = groupThousands (decimalDigits (h div 100)) @
              [CHR ''.'', digitChar (h mod 100 div 10), digitChar (h mod 10)]"

definition infinitySign :: string where
  "infinitySign = [char_of (226 :: nat), char_of (136 :: nat), char_of (158 :: nat)]"

fun toLocaleString2 :: "jsnum \<Rightarrow> string" where
  "toLocaleString2 NaN = ''NaN''"
| "toLocaleString2 PosInf = infinitySign"
| "toLocaleString2 NegInf = CHR ''-'' # infinitySign"
| "toLocaleString2 NegZero = ''-0.00''"
| "toLocaleString2 (Fin q) = (if q < 0 then ''-'' else '''') @ fixed2 (hundredths q)"

text \<open>
  \<^verbatim>\<open>formatAmount(amount) { if (!amount) return ''; return parseFloat(amount).toLocaleString(...) }\<close>
\<close>

definition formatAmount :: "jsval \<Rightarrow> string" where
  "formatAmount amount =
     (if \<not> truthy amount then '''' else toLocaleString2 (parseFloat amount))"

section \<open>Invoice records\<close>

text \<open>
  The fields of a normalized record that the properties below read. The script also fills
  documentType, documentVersion, status, the two dates, invoiceValue, vatAmount, the seller
  and buyer fields and three constants; the expressions that compute them never throw and
  nothing below reads them. A record scraped from markup has no externalLink, and one of
  the visible-page scan has no pageNumber: those are \<open>None\<close>.
\<close>

record invoice =
  serialNumber :: int
  pageNumber :: "int option"
  electronicNumber :: jsval
  internalNumber :: jsval
  totalAmount :: string
  externalLink :: "string option"

text \<open>
  \<^verbatim>\<open>isValidInvoiceData(invoice) { return !!(invoice.electronicNumber || invoice.internalNumber || invoice.totalAmount); }\<close>
\<close>

definition isValidInvoiceData :: "invoice \<Rightarrow> bool" where
  "isValidInvoiceData iv =
     truthy (jsOr (electronicNumber iv) (jsOr (internalNumber iv) (JStr (totalAmount iv))))"

section \<open>Normalizing API items\<close>

text \<open>
  \<^verbatim>\<open>generateExternalLink(item) { if (!item.uuid) return ''; return `https://invoicing.eta.gov.eg/documents/${item.uuid}/share/${item.uuid.substring(0, 26)}`; }\<close>
  Only a string has \<^verbatim>\<open>substring\<close>: on any other truthy uuid the call throws a TypeError.
\<close>

definition generateExternalLink :: "jsval \<Rightarrow> js_error + string" where
  "generateExternalLink item =
     bindE (getProp item ''uuid'') (\<lambda>uuid.
       if \<not> truthy uuid then Inr []
       else (case uuid of
               JStr s \<Rightarrow> Inr (''https://invoicing.eta.gov.eg/documents/'' @ s @ ''/share/'' @ take 26 s)
             | _ \<Rightarrow> Inl TypeError))"

text \<open>The arrow function that \<^verbatim>\<open>parseAPIResponse\<close> maps over the items.\<close>

definition apiItemToInvoice :: "int \<Rightarrow> int \<Rightarrow> nat \<times> jsval \<Rightarrow> js_error + invoice" where
  "apiItemToInvoice perPage page entry =
     (case entry of (index, item) \<Rightarrow>
        bindE (getProp item ''uuid'') (\<lambda>uuid.
        bindE (getProp item ''id'') (\<lambda>ident.
        bindE (getProp item ''internalId'') (\<lambda>internalId.
        bindE (getProp item ''totalAmount'') (\<lambda>amount.
        bindE (generateExternalLink item) (\<lambda>link.
          Inr \<lparr> serialNumber = ((page - 1) * perPage) + int index + 1,
                pageNumber = Some page,
                electronicNumber = jsOr uuid (jsOr ident (JStr [])),
                internalNumber = jsOr internalId (JStr []),
                totalAmount = formatAmount amount,
                externalLink = Some link \<rparr>))))))"

text \<open>
  \<^verbatim>\<open>parseAPIResponse(data, pageNumber) { const invoices = data.items || data.documents || data.data || []; return invoices.map((item, index) => ({...})); }\<close>
  Only an array has \<^verbatim>\<open>map\<close>: any other truthy value under those keys throws a TypeError.
  The first argument is \<^verbatim>\<open>this.resultsPerPage\<close>.
\<close>

definition parseAPIResponse :: "int \<Rightarrow> jsval \<Rightarrow> int \<Rightarrow> js_error + invoice list" where
  "parseAPIResponse perPage data page =
     bindE (getProp data ''items'') (\<lambda>items.
     bindE (getProp data ''documents'') (\<lambda>documents.
     bindE (getProp data ''data'') (\<lambda>d.
       (case jsOr items (jsOr documents (jsOr d (JArr []))) of
          JArr xs \<Rightarrow> mapE (apiItemToInvoice perPage page) (enumerate 0 xs)
        | _ \<Rightarrow> Inl TypeError))))"

section \<open>Scraping rows of markup\<close>

text \<open>
  A document is the list of its elements in document order; an element carries what the
  script's queries on it return. A cell is a descendant of a row that has the attribute
  \<^verbatim>\<open>data-automation-key\<close>.
\<close>

record cell =
  automationKey :: string
  linkText :: "string option"
  grayText :: "string option"

record element =
  isDetailsRow :: bool
  isListCell :: bool
  hasListIndex :: bool
  rectWidth :: rat
  rectHeight :: rat
  textContent :: string
  idLinkText :: "string option"
  cells :: "cell list"

record document =
  elements :: "element list"
  activePage :: "int option"

text \<open>\<^verbatim>\<open>s.trim()\<close>\<close>

definition trim :: "string \<Rightarrow> string" where
  "trim s = rev (dropWhile isSpace (rev (dropWhile isSpace s)))"

text \<open>
  \<^verbatim>\<open>extractUsingDataAttributes(row, invoice)\<close>: for each cell in turn, the uuid cell sets
  electronicNumber from its first link and the total cell sets totalAmount from its
  \<^verbatim>\<open>.griCellTitleGray\<close> element, each as \<^verbatim>\<open>textContent?.trim() || ''\<close>.
\<close>

definition extractCell :: "invoice \<Rightarrow> cell \<Rightarrow> invoice" where
  "extractCell iv c =
     (if automationKey c = ''uuid'' then
        (case linkText c of
           None \<Rightarrow> iv
         | Some t \<Rightarrow> iv\<lparr>electronicNumber := jsOr (JStr (trim t)) (JStr [])\<rparr>)
      else if automationKey c = ''total'' then
        (case grayText c of
           None \<Rightarrow> iv
         | Some t \<Rightarrow> iv\<lparr>totalAmount := (if trim t \<noteq> [] then trim t else [])\<rparr>)
      else iv)"

definition extractUsingDataAttributes :: "element \<Rightarrow> invoice \<Rightarrow> invoice" where
  "extractUsingDataAttributes row iv = foldl extractCell iv (cells row)"

text \<open>\<^verbatim>\<open>extractDataFromRow(row, index)\<close>\<close>

definition extractDataFromRow :: "element \<Rightarrow> int \<Rightarrow> invoice" where
  "extractDataFromRow row index =
     extractUsingDataAttributes row
       \<lparr> serialNumber = index,
         pageNumber = None,
         electronicNumber = JStr [],
         internalNumber = JStr [],
         totalAmount = [],
         externalLink = None \<rparr>"

text \<open>
  \<^verbatim>\<open>extractDataFromDocument(doc, pageNumber)\<close>: the rows are the elements matching
  \<^verbatim>\<open>.ms-DetailsRow[role="row"], .ms-List-cell[role="gridcell"]\<close>; the index counts
  every row, valid or not.
\<close>

definition gridRows :: "document \<Rightarrow> element list" where
  "gridRows doc = filter (\<lambda>e. isDetailsRow e \<or> isListCell e) (elements doc)"

definition documentRowToInvoice :: "int \<Rightarrow> int \<Rightarrow> nat \<times> element \<Rightarrow> invoice list" where
  "documentRowToInvoice perPage page entry =
     (case entry of (index, row) \<Rightarrow>
        let iv = extractDataFromRow row (int index + 1)
        in if isValidInvoiceData iv
           then [iv\<lparr>pageNumber := Some page,
                     serialNumber := ((page - 1) * perPage) + int index + 1\<rparr>]
           else [])"

definition extractDataFromDocument :: "int \<Rightarrow> document \<Rightarrow> int \<Rightarrow> invoice list" where
  "extractDataFromDocument perPage doc page =
     concat (map (documentRowToInvoice perPage page) (enumerate 0 (gridRows doc)))"

section \<open>The content script's state\<close>

text \<open>
  The fields of \<^verbatim>\<open>ETAContentScriptOptimized\<close>. A progress callback either returns
  (\<open>None\<close>) or throws (\<open>Some\<close> error); the localized message of a progress report is built
  from its two counts and is left out.
\<close>

record progress =
  reportedPage :: int
  reportedTotal :: int
  percentage :: rat

record script =
  invoiceData :: "invoice list"
  allPagesData :: "invoice list"
  totalCount :: int
  currentPage :: int
  totalPages :: int
  resultsPerPage :: int
  isProcessingAllPages :: bool
  progressCallback :: "(progress \<Rightarrow> js_error option) option"
  apiEndpoint :: "string option"
  authHeaders :: "(string \<times> string) list option"

text \<open>The state the constructor leaves.\<close>

definition newScript :: script where
  "newScript =
     \<lparr> invoiceData = [], allPagesData = [], totalCount = 0, currentPage = 1, totalPages = 1,
       resultsPerPage = 50, isProcessingAllPages = False, progressCallback = None,
       apiEndpoint = None, authHeaders = None \<rparr>"

section \<open>Pagination\<close>

text \<open>
  \<^verbatim>\<open>text.match(/Results:\s*(\d+)/i)\<close>: the leftmost place where the text reads
  "results:" in any letter case, then any white space, then at least one digit; the group is
  the whole run of digits. \<^verbatim>\<open>parseInt\<close> of the group is its decimal value (exact below
  \<open>2^53\<close>).
\<close>

definition lowerAscii :: "char \<Rightarrow> char" where
  "lowerAscii c =
     (case map_of (zip ''ABCDEFGHIJKLMNOPQRSTUVWXYZ'' ''abcdefghijklmnopqrstuvwxyz'') c of
        Some l \<Rightarrow> l
      | None \<Rightarrow> c)"

definition matchResultsAt :: "string \<Rightarrow> nat option" where
  "matchResultsAt s =
     (if map lowerAscii (take 8 s) = ''results:'' then
        (let ds = takeWhile isDigit (dropWhile isSpace (drop 8 s))
         in if ds = [] then None else Some (digitsValue ds))
      else None)"

fun matchResults :: "string \<Rightarrow> nat option" where
  "matchResults [] = None"
| "matchResults (c # cs) =
     (case matchResultsAt (c # cs) of Some n \<Rightarrow> Some n | None \<Rightarrow> matchResults cs)"

text \<open>
  \<^verbatim>\<open>extractTotalCount()\<close>: the first element of \<^verbatim>\<open>querySelectorAll('*')\<close> whose text
  matches decides; 0 when none does.
\<close>

fun firstResultsCount :: "string list \<Rightarrow> int" where
  "firstResultsCount [] = 0"
| "firstResultsCount (t # ts) =
     (case matchResults t of Some n \<Rightarrow> int n | None \<Rightarrow> firstResultsCount ts)"

definition extractTotalCount :: "document \<Rightarrow> int" where
  "extractTotalCount doc = firstResultsCount (map textContent (elements doc))"

text \<open>
  \<^verbatim>\<open>extractCurrentPage()\<close>: \<open>activePage\<close> is the number parsed from the active pagination
  button, \<open>None\<close> when there is no such button or its text is not a number.
\<close>

definition extractCurrentPage :: "document \<Rightarrow> int" where
  "extractCurrentPage doc = (case activePage doc of Some n \<Rightarrow> n | None \<Rightarrow> 1)"

text \<open>
  \<^verbatim>\<open>extractPaginationInfo() { this.totalCount = this.extractTotalCount(); this.currentPage = this.extractCurrentPage(); this.resultsPerPage = 50; this.totalPages = Math.ceil(this.totalCount / this.resultsPerPage); }\<close>
\<close>

definition extractPaginationInfo :: "document \<Rightarrow> script \<Rightarrow> script" where
  "extractPaginationInfo doc st =
     (let st1 = st\<lparr>totalCount := extractTotalCount doc\<rparr>;
          st2 = st1\<lparr>currentPage := extractCurrentPage doc\<rparr>;
          st3 = st2\<lparr>resultsPerPage := 50\<rparr>
      in st3\<lparr>totalPages :=
               \<lceil>(of_int (totalCount st3) :: rat) / of_int (resultsPerPage st3)\<rceil>\<rparr>)"

section \<open>The visible-page scan\<close>

definition isRowVisible :: "element \<Rightarrow> bool" where
  "isRowVisible row = (rectWidth row > 0 \<and> rectHeight row > 0)"

text \<open>
  \<^verbatim>\<open>hasInvoiceData(row)\<close>: \<open>idLinkText\<close> is the text of the first element matching
  \<^verbatim>\<open>.internalId-link a, [data-automation-key="uuid"] a\<close> under the row.
\<close>

definition hasInvoiceData :: "element \<Rightarrow> bool" where
  "hasInvoiceData row = (case idLinkText row of None \<Rightarrow> False | Some t \<Rightarrow> trim t \<noteq> [])"

fun firstVisibleRows :: "(element \<Rightarrow> bool) list \<Rightarrow> element list \<Rightarrow> element list" where
  "firstVisibleRows [] es = []"
| "firstVisibleRows (selector # selectors) es =
     (let visibleRows = filter (\<lambda>row. isRowVisible row \<and> hasInvoiceData row) (filter selector es)
      in if length visibleRows > 0 then visibleRows else firstVisibleRows selectors es)"

definition getVisibleInvoiceRows :: "document \<Rightarrow> element list" where
  "getVisibleInvoiceRows doc =
     firstVisibleRows [isDetailsRow, isListCell, hasListIndex] (elements doc)"

definition scanRowToInvoice :: "nat \<times> element \<Rightarrow> invoice list" where
  "scanRowToInvoice entry =
     (case entry of (index, row) \<Rightarrow>
        let invoiceData = extractDataFromRow row (int index + 1)
        in if isValidInvoiceData invoiceData then [invoiceData] else [])"

definition scanForInvoices :: "document \<Rightarrow> script \<Rightarrow> script" where
  "scanForInvoices doc st =
     (let st1 = extractPaginationInfo doc st;
          rows = getVisibleInvoiceRows doc
      in st1\<lparr>invoiceData := concat (map scanRowToInvoice (enumerate 0 rows))\<rparr>)"

section \<open>Fetching one page through the API\<close>

text \<open>
  The request \<^verbatim>\<open>buildAPIUrl\<close> describes: the endpoint up to its first question mark, the
  page and the page size (the sort parameters are constants). The network answers a
  request by rejecting the fetch or by a response with a status and a body, \<open>None\<close> when the
  body is not JSON.
\<close>

record api_request =
  requestBase :: string
  requestPage :: int
  requestPageSize :: int

datatype fetch_outcome = FetchFails | Response int "jsval option"

definition buildAPIUrl :: "script \<Rightarrow> int \<Rightarrow> js_error + api_request" where
  "buildAPIUrl st page =
     (case apiEndpoint st of
        None \<Rightarrow> Inl TypeError
      | Some endpoint \<Rightarrow>
          Inr \<lparr> requestBase = takeWhile (\<lambda>c. c \<noteq> CHR ''?'') endpoint,
                requestPage = page,
                requestPageSize = resultsPerPage st \<rparr>)"

definition responseOk :: "int \<Rightarrow> bool" where
  "responseOk status = (200 \<le> status \<and> status \<le> 299)"

text \<open>The \<^verbatim>\<open>try\<close> block of \<^verbatim>\<open>fetchPageDataViaAPI\<close>.\<close>

definition fetchPageTry :: "script \<Rightarrow> (api_request \<Rightarrow> fetch_outcome) \<Rightarrow> int \<Rightarrow> js_error + invoice list" where
  "fetchPageTry st net page =
     bindE (buildAPIUrl st page) (\<lambda>url.
       (case net url of
          FetchFails \<Rightarrow> Inl FetchRejected
        | Response status body \<Rightarrow>
            if \<not> responseOk status then Inl (ApiRequestFailed status)
            else (case body of
                    None \<Rightarrow> Inl InvalidJson
                  | Some d \<Rightarrow> parseAPIResponse (resultsPerPage st) d page)))"

text \<open>
  \<^verbatim>\<open>async fetchPageDataViaAPI(pageNumber) { try { ... } catch (error) { console.warn(...); return []; } }\<close>
\<close>

definition fetchPageDataViaAPI :: "script \<Rightarrow> (api_request \<Rightarrow> fetch_outcome) \<Rightarrow> int \<Rightarrow> js_error + invoice list" where
  "fetchPageDataViaAPI st net page =
     (case fetchPageTry st net page of Inl e \<Rightarrow> Inr [] | Inr records \<Rightarrow> Inr records)"

section \<open>Acquisition results, outcomes and traces\<close>

text \<open>
  The object an acquisition returns; the failure object of \<^verbatim>\<open>getAllPagesDataFast\<close> has no
  \<^verbatim>\<open>totalProcessed\<close> and no \<^verbatim>\<open>expectedTotal\<close>, and its \<^verbatim>\<open>error\<close> is the message of the
  caught error, kept here as the error itself.
\<close>

record acquisition =
  success :: bool
  data :: "invoice list"
  totalProcessed :: "int option"
  expectedTotal :: "int option"
  error :: "js_error option"

text \<open>
  An asynchronous call returns, throws, or never settles. Beside its outcome it leaves a
  trace of what it did to the outside, in order: a fetch sent for a page, an invisible
  frame attached for a page, the await of the promises of a list of pages completed, a
  progress report delivered to the callback.
\<close>

datatype 'a outcome = Returned 'a | Raised js_error | Hangs

datatype event =
    FetchStarted int
  | FrameAttached int
  | BatchAwaited "int list"
  | ProgressReported progress

section \<open>All pages through the API\<close>

text \<open>
  The two loops of \<^verbatim>\<open>getAllPagesViaAPI\<close>:
  \<^verbatim>\<open>for (let page = 1; page <= this.totalPages; page += batchSize) { for (let i = 0; i < batchSize && (page + i) <= this.totalPages; i++) batch.push(this.fetchPageDataViaAPI(page + i)); pagePromises.push(Promise.all(batch)); }\<close>
  with \<^verbatim>\<open>batchSize = 10\<close>: the pages of each batch.
\<close>

function apiBatches :: "int \<Rightarrow> int \<Rightarrow> int list list" where
  "apiBatches page lastPage =
     (if page \<le> lastPage then [page..min (page + 9) lastPage] # apiBatches (page + 10) lastPage else [])"
  by pat_completeness auto
termination
  by (relation "measure (\<lambda>(page, lastPage). nat (lastPage + 1 - page))") auto

declare apiBatches.simps [simp del]

text \<open>
  Calling \<^verbatim>\<open>fetchPageDataViaAPI\<close> runs it up to its first \<^verbatim>\<open>await\<close>: the request is built
  and, unless building it threw, the fetch is sent, before the call returns its promise.
\<close>

definition fetchCallEvents :: "script \<Rightarrow> int \<Rightarrow> event list" where
  "fetchCallEvents st page =
     (case buildAPIUrl st page of Inl e \<Rightarrow> [] | Inr url \<Rightarrow> [FetchStarted page])"

text \<open>
  \<^verbatim>\<open>getAllPagesViaAPI\<close>: every call of every batch is made inside the loops; the only
  \<^verbatim>\<open>await\<close> is \<^verbatim>\<open>await Promise.all(pagePromises)\<close> after them. The data is
  \<^verbatim>\<open>results.flat().flat()\<close>.
\<close>

definition getAllPagesViaAPI :: "script \<Rightarrow> (api_request \<Rightarrow> fetch_outcome) \<Rightarrow> acquisition outcome \<times> event list" where
  "getAllPagesViaAPI st net =
     (let batches = apiBatches 1 (totalPages st);
          started = concat (map (fetchCallEvents st) (concat batches))
      in case mapE (mapE (fetchPageDataViaAPI st net)) batches of
           Inl e \<Rightarrow> (Raised e, started)
         | Inr results \<Rightarrow>
             (let allData = concat (concat results)
              in (Returned \<lparr> success = True, data = allData,
                             totalProcessed = Some (int (length allData)),
                             expectedTotal = Some (totalCount st), error = None \<rparr>,
                  started @ [BatchAwaited (concat batches)])))"

section \<open>Loading one page in an invisible frame\<close>

text \<open>
  \<^verbatim>\<open>loadPageInIframe\<close> attaches a frame to the document body, arms a 10000 ms timer and
  registers a load and an error handler. The frame's state: whether it is attached,
  whether the timer is armed, the value its promise resolved with, and how often it was
  removed from the body.
\<close>

record frame =
  attached :: bool
  timerArmed :: bool
  resolved :: "invoice list option"
  removals :: nat

datatype frame_event = LoadEvent "document option" | ErrorEvent | TimeoutEvent

text \<open>The state when the promise executor has run: \<^verbatim>\<open>appendChild\<close> is its last statement.\<close>

definition newFrame :: frame where
  "newFrame = \<lparr> attached = True, timerArmed = True, resolved = None, removals = 0 \<rparr>"

text \<open>\<^verbatim>\<open>document.body.removeChild(iframe)\<close> throws NotFoundError when the frame is not a child.\<close>

definition removeChild :: "frame \<Rightarrow> js_error + frame" where
  "removeChild fr =
     (if attached fr then Inr (fr\<lparr>attached := False, removals := removals fr + 1\<rparr>)
      else Inl NotFoundError)"

text \<open>A promise keeps the first value it is resolved with.\<close>

definition resolve :: "invoice list \<Rightarrow> frame \<Rightarrow> frame" where
  "resolve v fr = (case resolved fr of None \<Rightarrow> fr\<lparr>resolved := Some v\<rparr> | Some w \<Rightarrow> fr)"

definition clearTimeout :: "frame \<Rightarrow> frame" where
  "clearTimeout fr = fr\<lparr>timerArmed := False\<rparr>"

text \<open>
  The handlers: each returns the frame's new state and the error that escaped it, if any.
  The timer's callback: \<^verbatim>\<open>document.body.removeChild(iframe); resolve([]);\<close>
\<close>

definition onTimeout :: "frame \<Rightarrow> frame \<times> js_error option" where
  "onTimeout fr =
     (let fired = fr\<lparr>timerArmed := False\<rparr>
      in case removeChild fired of
           Inl e \<Rightarrow> (fired, Some e)
         | Inr removed \<Rightarrow> (resolve [] removed, None))"

text \<open>
  \<^verbatim>\<open>iframe.onerror = () => { clearTimeout(timeout); document.body.removeChild(iframe); resolve([]); }\<close>
\<close>

definition onError :: "frame \<Rightarrow> frame \<times> js_error option" where
  "onError fr =
     (case removeChild (clearTimeout fr) of
        Inl e \<Rightarrow> (clearTimeout fr, Some e)
      | Inr removed \<Rightarrow> (resolve [] removed, None))"

text \<open>
  \<^verbatim>\<open>iframe.onload\<close>: the \<^verbatim>\<open>try\<close> block reads the frame's document (\<open>None\<close>: it cannot be
  read, which throws), extracts, clears the timer, removes the frame and resolves with the
  data; the \<^verbatim>\<open>catch\<close> block clears the timer, removes the frame and resolves with \<^verbatim>\<open>[]\<close>.
\<close>

definition onLoadCatch :: "frame \<Rightarrow> frame \<times> js_error option" where
  "onLoadCatch fr =
     (case removeChild (clearTimeout fr) of
        Inl e \<Rightarrow> (clearTimeout fr, Some e)
      | Inr removed \<Rightarrow> (resolve [] removed, None))"

definition onLoad :: "int \<Rightarrow> int \<Rightarrow> document option \<Rightarrow> frame \<Rightarrow> frame \<times> js_error option" where
  "onLoad perPage page iframeDoc fr =
     (case iframeDoc of
        None \<Rightarrow> onLoadCatch fr
      | Some doc \<Rightarrow>
          (let d = extractDataFromDocument perPage doc page
           in case removeChild (clearTimeout fr) of
                Inl e \<Rightarrow> onLoadCatch (clearTimeout fr)
              | Inr removed \<Rightarrow> (resolve d removed, None)))"

fun handleEvent :: "int \<Rightarrow> int \<Rightarrow> frame_event \<Rightarrow> frame \<Rightarrow> frame \<times> js_error option" where
  "handleEvent perPage page (LoadEvent iframeDoc) fr = onLoad perPage page iframeDoc fr"
| "handleEvent perPage page ErrorEvent fr = onError fr"
| "handleEvent perPage page TimeoutEvent fr = onTimeout fr"

text \<open>
  What the browser can deliver: the timeout only while the timer is armed; a load or an
  error only while the frame is attached (removing a frame discards its browsing context).
\<close>

fun enabled :: "frame_event \<Rightarrow> frame \<Rightarrow> bool" where
  "enabled TimeoutEvent fr = timerArmed fr"
| "enabled (LoadEvent iframeDoc) fr = attached fr"
| "enabled ErrorEvent fr = attached fr"

text \<open>Delivering a sequence of events; \<open>None\<close> when the browser cannot deliver one of them.\<close>

fun deliver :: "int \<Rightarrow> int \<Rightarrow> frame_event list \<Rightarrow> frame \<Rightarrow> frame option" where
  "deliver perPage page [] fr = Some fr"
| "deliver perPage page (e # es) fr =
     (if enabled e fr then deliver perPage page es (fst (handleEvent perPage page e fr)) else None)"

text \<open>
  The value of the promise \<^verbatim>\<open>loadPageInIframe(url, pageNumber)\<close> once the first event of the
  frame has been handled; \<open>None\<close> if it is still unresolved then.
\<close>

definition loadPageInIframe :: "int \<Rightarrow> frame_event \<Rightarrow> int \<Rightarrow> invoice list option" where
  "loadPageInIframe perPage first page = resolved (fst (handleEvent perPage page first newFrame))"

section \<open>All pages through invisible frames\<close>

text \<open>
  What the script's surroundings supply: the document of the visible page, the address of
  the visible page, the network's answer to each API request, and for each page address
  the first event of a frame pointed at it. A page address is the visible page's address
  with its \<^verbatim>\<open>page\<close> parameter set, kept as the pair of the two.
\<close>

record browser =
  visibleDocument :: document
  locationHref :: string
  network :: "api_request \<Rightarrow> fetch_outcome"
  frameEvent :: "string \<times> int \<Rightarrow> frame_event"

text \<open>
  \<^verbatim>\<open>generateAllPageUrls() { ... for (let page = 1; page <= this.totalPages; page++) { url.searchParams.set('page', page); urls.push(url.toString()); } return urls; }\<close>
\<close>

definition generateAllPageUrls :: "script \<Rightarrow> browser \<Rightarrow> (string \<times> int) list" where
  "generateAllPageUrls st env = map (\<lambda>page. (locationHref env, page)) [1..totalPages st]"

text \<open>\<^verbatim>\<open>await Promise.all(promises)\<close>: all the values, or no return while one is unresolved.\<close>

fun awaitAll :: "'a option list \<Rightarrow> 'a list option" where
  "awaitAll [] = Some []"
| "awaitAll (None # ps) = None"
| "awaitAll (Some v # ps) = (case awaitAll ps of None \<Rightarrow> None | Some vs \<Rightarrow> Some (v # vs))"

datatype run_status = Completed | Threw js_error | Pending

text \<open>
  One turn of the loop of \<^verbatim>\<open>loadPagesInParallel\<close>, for the batch that starts at index \<open>i\<close>:
  \<^verbatim>\<open>const batch = urls.slice(i, i + batchSize); const batchPromises = batch.map((url, index) => this.loadPageInIframe(url, i + index + 1)); const batchResults = await Promise.all(batchPromises); results.push(...batchResults.flat()); if (this.progressCallback) { this.progressCallback({...}); }\<close>
  with \<^verbatim>\<open>batchSize = 5\<close>. It yields how the turn ended, the records it pushed and its trace.
\<close>

definition loadBatch :: "script \<Rightarrow> browser \<Rightarrow> (string \<times> int) list \<Rightarrow> nat \<Rightarrow> run_status \<times> invoice list \<times> event list" where
  "loadBatch st env urls i =
     (let batch = take 5 (drop i urls);
          pages = map (\<lambda>index. int i + int index + 1) [0..<length batch];
          batchPromises =
            map (\<lambda>(index, url).
                   loadPageInIframe (resultsPerPage st) (frameEvent env url) (int i + int index + 1))
                (enumerate 0 batch)
      in case awaitAll batchPromises of
           None \<Rightarrow> (Pending, [], map FrameAttached pages)
         | Some batchResults \<Rightarrow>
             (let pushed = concat batchResults;
                  done = map FrameAttached pages @ [BatchAwaited pages]
              in case progressCallback st of
                   None \<Rightarrow> (Completed, pushed, done)
                 | Some callback \<Rightarrow>
                     (let p = \<lparr> reportedPage = int (min (i + 5) (length urls)),
                                 reportedTotal = int (length urls),
                                 percentage =
                                   (of_nat (min (i + 5) (length urls)) / of_nat (length urls)) * 100 \<rparr>
                      in case callback p of
                           None \<Rightarrow> (Completed, pushed, done @ [ProgressReported p])
                         | Some e \<Rightarrow> (Threw e, pushed, done @ [ProgressReported p]))))"

text \<open>
  The loop \<^verbatim>\<open>for (let i = 0; i < urls.length; i += batchSize)\<close>, from index \<open>i\<close> with the
  records and the trace so far. It stops at the first turn that throws or never settles,
  with the records pushed until then.
\<close>

function loadBatches :: "script \<Rightarrow> browser \<Rightarrow> (string \<times> int) list \<Rightarrow> nat \<Rightarrow> invoice list \<Rightarrow> event list
    \<Rightarrow> run_status \<times> invoice list \<times> event list" where
  "loadBatches st env urls i results tr =
     (if i < length urls then
        (case loadBatch st env urls i of
           (Completed, pushed, evs) \<Rightarrow> loadBatches st env urls (i + 5) (results @ pushed) (tr @ evs)
         | (Threw e, pushed, evs) \<Rightarrow> (Threw e, results @ pushed, tr @ evs)
         | (Pending, pushed, evs) \<Rightarrow> (Pending, results @ pushed, tr @ evs))
      else (Completed, results, tr))"
  by pat_completeness auto
termination
  by (relation "measure (\<lambda>(st, env, urls, i, results, tr). length urls - i)") auto

declare loadBatches.simps [simp del]

text \<open>
  \<^verbatim>\<open>loadPagesInParallel(urls, options)\<close>: the loop, then
  \<^verbatim>\<open>return { success: true, data: results, totalProcessed: results.length, expectedTotal: this.totalCount };\<close>
  The records in \<^verbatim>\<open>results\<close> are local to the call: an error leaves it without them.
\<close>

definition loadPagesInParallel :: "script \<Rightarrow> browser \<Rightarrow> (string \<times> int) list \<Rightarrow> acquisition outcome \<times> event list" where
  "loadPagesInParallel st env urls =
     (case loadBatches st env urls 0 [] [] of
        (Completed, results, tr) \<Rightarrow>
          (Returned \<lparr> success = True, data = results,
                      totalProcessed = Some (int (length results)),
                      expectedTotal = Some (totalCount st), error = None \<rparr>, tr)
      | (Threw e, results, tr) \<Rightarrow> (Raised e, tr)
      | (Pending, results, tr) \<Rightarrow> (Hangs, tr))"

definition getAllPagesViaOptimizedDOM :: "script \<Rightarrow> browser \<Rightarrow> acquisition outcome \<times> event list" where
  "getAllPagesViaOptimizedDOM st env = loadPagesInParallel st env (generateAllPageUrls st env)"

section \<open>The orchestration\<close>

text \<open>
  \<^verbatim>\<open>this.apiEndpoint && this.authHeaders\<close>: a recorded endpoint is a string, a recorded
  header bag an object.
\<close>

definition apiKnown :: "script \<Rightarrow> bool" where
  "apiKnown st =
     ((case apiEndpoint st of None \<Rightarrow> False | Some endpoint \<Rightarrow> endpoint \<noteq> []) \<and>
      authHeaders st \<noteq> None)"

text \<open>
  \<^verbatim>\<open>async getAllPagesDataFast(options = {}) { try { this.isProcessingAllPages = true; this.allPagesData = []; if (this.apiEndpoint && this.authHeaders) { return await this.getAllPagesViaAPI(options); } return await this.getAllPagesViaOptimizedDOM(options); } catch (error) { return { success: false, data: this.allPagesData, error: error.message }; } finally { this.isProcessingAllPages = false; } }\<close>
  It yields what the caller receives, the script's state afterwards and the trace. While
  the awaited call never settles, neither \<^verbatim>\<open>catch\<close> nor \<^verbatim>\<open>finally\<close> runs.
\<close>

definition getAllPagesDataFast :: "script \<Rightarrow> browser \<Rightarrow> acquisition outcome \<times> script \<times> event list" where
  "getAllPagesDataFast st env =
     (let st1 = st\<lparr>isProcessingAllPages := True\<rparr>;
          st2 = st1\<lparr>allPagesData := []\<rparr>;
          run = (if apiKnown st2 then getAllPagesViaAPI st2 (network env)
                 else getAllPagesViaOptimizedDOM st2 env)
      in case fst run of
           Returned r \<Rightarrow> (Returned r, st2\<lparr>isProcessingAllPages := False\<rparr>, snd run)
         | Raised e \<Rightarrow>
             (Returned \<lparr> success = False, data = allPagesData st2, totalProcessed = None,
                         expectedTotal = None, error = Some e \<rparr>,
              st2\<lparr>isProcessingAllPages := False\<rparr>, snd run)
         | Hangs \<Rightarrow> (Hangs, st2, snd run))"

text \<open>\<^verbatim>\<open>async getAllPagesData(options = {}) { return await this.getAllPagesDataFast(options); }\<close>\<close>

definition getAllPagesData :: "script \<Rightarrow> browser \<Rightarrow> acquisition outcome \<times> script \<times> event list" where
  "getAllPagesData st env = getAllPagesDataFast st env"

section \<open>Names for the parts of a turn of the frame loop\<close>



text \<open>The page numbers \<^verbatim>\<open>i + index + 1\<close> of the batch \<^verbatim>\<open>urls.slice(i, i + 5)\<close>.\<close>

definition batchPages :: "(string \<times> int) list \<Rightarrow> nat \<Rightarrow> int list" where
  "batchPages urls i = map (\<lambda>index. int i + int index + 1) [0..<length (take 5 (drop i urls))]"

text \<open>The object the progress callback is called with after that batch.\<close>

definition batchReport :: "(string \<times> int) list \<Rightarrow> nat \<Rightarrow> progress" where
  "batchReport urls i =
     \<lparr> reportedPage = int (min (i + 5) (length urls)),
       reportedTotal = int (length urls),
       percentage = (of_nat (min (i + 5) (length urls)) / of_nat (length urls)) * 100 \<rparr>"

text \<open>The records a frame pointed at a page address resolves with.\<close>

definition frameRecords :: "script \<Rightarrow> browser \<Rightarrow> string \<times> int \<Rightarrow> int \<Rightarrow> invoice list" where
  "frameRecords st env url page =
     (case frameEvent env url of
        LoadEvent (Some doc) \<Rightarrow> extractDataFromDocument (resultsPerPage st) doc page
      | _ \<Rightarrow> [])"

definition batchRecords :: "script \<Rightarrow> browser \<Rightarrow> (string \<times> int) list \<Rightarrow> nat \<Rightarrow> invoice list" where
  "batchRecords st env urls i =
     concat (map (\<lambda>(index, url). frameRecords st env url (int i + int index + 1))
               (enumerate 0 (take 5 (drop i urls))))"



section \<open>Concrete inputs\<close>

text \<open>
  A script that has recorded an API endpoint and credentials and holds the pagination of
  its last scan, and a browser around it whose network is given.
\<close>

definition emptyDocument :: document where
  "emptyDocument = \<lparr> elements = [], activePage = None \<rparr>"

definition apiScript :: "int \<Rightarrow> int \<Rightarrow> script" where
  "apiScript count pages =
     newScript\<lparr> totalCount := count, totalPages := pages,
                apiEndpoint := Some ''https://api.invoicing.eta.gov.eg/api/v1/documents/recent?page=1'',
                authHeaders := Some [(''Authorization'', ''Bearer token''),
                                     (''Content-Type'', ''application/json''),
                                     (''Accept'', ''application/json'')] \<rparr>"

definition apiBrowser :: "(api_request \<Rightarrow> fetch_outcome) \<Rightarrow> browser" where
  "apiBrowser net =
     \<lparr> visibleDocument = emptyDocument,
       locationHref = ''https://invoicing.eta.gov.eg/documents'',
       network = net,
       frameEvent = (\<lambda>url. TimeoutEvent) \<rparr>"

text \<open>The API answers every page with one item that has no property at all.\<close>

definition bareItemNetwork :: "api_request \<Rightarrow> fetch_outcome" where
  "bareItemNetwork request = Response 200 (Some (JObj [(''items'', JArr [JObj []])]))"

text \<open>The API fails page 2 with status 500 and answers every other page as above.\<close>

definition page2FailsNetwork :: "api_request \<Rightarrow> fetch_outcome" where
  "page2FailsNetwork request =
     (if requestPage request = 2 then Response 500 None else bareItemNetwork request)"

text \<open>
  A browser whose frames are given and whose network rejects every fetch. A document with
  one grid row, whose uuid cell links to an invoice. A progress callback that throws, as
  \<^verbatim>\<open>chrome.runtime.sendMessage\<close> does once the extension's context is invalidated, and
  one that returns.
\<close>

definition frameBrowser :: "(string \<times> int \<Rightarrow> frame_event) \<Rightarrow> browser" where
  "frameBrowser frames =
     \<lparr> visibleDocument = emptyDocument,
       locationHref = ''https://invoicing.eta.gov.eg/documents'',
       network = (\<lambda>request. FetchFails),
       frameEvent = frames \<rparr>"

definition oneRowDocument :: document where
  "oneRowDocument =
     \<lparr> elements =
         [\<lparr> isDetailsRow = True, isListCell = False, hasListIndex = False,
            rectWidth = 800, rectHeight = 42, textContent = ''ABC123'',
            idLinkText = Some ''ABC123'',
            cells = [\<lparr> automationKey = ''uuid'', linkText = Some ''ABC123'', grayText = None \<rparr>] \<rparr>],
       activePage = None \<rparr>"

definition throwingCallback :: "progress \<Rightarrow> js_error option" where
  "throwingCallback p = Some (Thrown ''Extension context invalidated.'')"


text \<open>
  A rendered page whose result counter reads 120, and the script as its first scan leaves
  it when the portal has not rendered anything yet.
\<close>

definition results120Document :: document where
  "results120Document =
     \<lparr> elements =
         [\<lparr> isDetailsRow = False, isListCell = False, hasListIndex = False,
            rectWidth = 200, rectHeight = 20, textContent = ''Results: 120'',
            idLinkText = None, cells = [] \<rparr>],
       activePage = Some 1 \<rparr>"

definition earlyScannedScript :: script where
  "earlyScannedScript = scanForInvoices emptyDocument newScript"


section \<open>Evaluation lemmas\<close>

lemma floor_rat_numeral_div: "\<lfloor>(numeral a :: rat) / numeral b\<rfloor> = numeral a div numeral b"
  using floor_divide_of_int_eq [of "numeral a" "numeral b", where ?'a = rat] by simp

lemmas parse_defs = parseFloatStr_def isSpace_def isDigit_def digitsValue_def exponentPart_def
  pow10_def mkNumber_def Let_def

lemmas render_defs = hundredths_def fixed2_def groupThousands_def decimalDigits.simps digitChar_def
  floor_rat_numeral_div

lemmas item_defs = parseAPIResponse_def apiItemToInvoice_def generateExternalLink_def bindE_def
  jsOr_def formatAmount_def enumerate_eq_zip

lemmas fetch_defs = fetchPageDataViaAPI_def fetchPageTry_def buildAPIUrl_def responseOk_def

section \<open>Amounts\<close>

lemma digitChar_isDigit: "d < 10 \<Longrightarrow> isDigit (digitChar d)"
proof -
  assume "d < 10"
  then have "d \<in> {0, 1, 2, 3, 4, 5, 6, 7, 8, 9}" by auto
  then show ?thesis by (auto simp: digitChar_def isDigit_def)
qed

lemma toLocaleString2_nonempty: "toLocaleString2 n \<noteq> []"
  by (cases n) (simp_all add: infinitySign_def fixed2_def)

lemma formatAmount_empty_iff: "formatAmount a = [] \<longleftrightarrow> \<not> truthy a"
  by (simp add: formatAmount_def toLocaleString2_nonempty)

text \<open>
  C8, as the code has it. \<^verbatim>\<open>formatAmount\<close> returns the empty string exactly for the falsy
  amounts (undefined, null, false, 0, NaN, the empty string). Every other amount is
  rendered from \<^verbatim>\<open>parseFloat(amount)\<close>: text that starts no decimal literal renders as
  "NaN", and a finite value renders with its sign, its integer digits grouped by commas, a
  point and exactly two fraction digits. \<^verbatim>\<open>formatAmount("1234.5")\<close> is "1,234.50";
  \<^verbatim>\<open>formatAmount(0)\<close> and \<^verbatim>\<open>formatAmount(null)\<close> are the empty string.
\<close>

theorem formatAmount_rendering:
  "(formatAmount a = [] \<longleftrightarrow> \<not> truthy a) \<and>
   (truthy a \<longrightarrow> parseFloat a = NaN \<longrightarrow> formatAmount a = ''NaN'') \<and>
   (truthy a \<longrightarrow> parseFloat a = Fin q \<longrightarrow>
      (\<exists>d1 d2. isDigit d1 \<and> isDigit d2 \<and>
         formatAmount a =
           (if q < 0 then ''-'' else []) @ groupThousands (decimalDigits (hundredths q div 100)) @
           [CHR ''.'', d1, d2])) \<and>
   formatAmount (JStr ''1234.5'') = ''1,234.50'' \<and>
   formatAmount (JNum (Fin 0)) = [] \<and>
   formatAmount JNull = []"
proof -
  have shape: "\<exists>d1 d2. isDigit d1 \<and> isDigit d2 \<and>
         toLocaleString2 (Fin q) =
           (if q < 0 then ''-'' else []) @ groupThousands (decimalDigits (hundredths q div 100)) @
           [CHR ''.'', d1, d2]"
  proof -
    have "hundredths q mod 100 div 10 < 10" by (simp add: div_less_iff_less_mult)
    then have 1: "isDigit (digitChar (hundredths q mod 100 div 10))" by (rule digitChar_isDigit)
    have 2: "isDigit (digitChar (hundredths q mod 10))" by (rule digitChar_isDigit) simp
    from 1 2 show ?thesis by (auto simp: fixed2_def)
  qed
  have ex: "formatAmount (JStr ''1234.5'') = ''1,234.50''"
    by (simp add: formatAmount_def parse_defs render_defs)
  show ?thesis
    using shape ex by (simp add: formatAmount_empty_iff) (simp add: formatAmount_def)
qed

theorem formatAmount_rendering_witness:
  "truthy (JStr ''12'') \<and> parseFloat (JStr ''12'') = Fin 12 \<and> formatAmount (JStr ''12'') = ''12.00'' \<and>
   truthy (JStr ''n/a'') \<and> parseFloat (JStr ''n/a'') = NaN \<and> formatAmount (JStr ''n/a'') = ''NaN''"
proof -
  have p: "parseFloat (JStr ''12'') = Fin 12" by (simp add: parse_defs)
  have n: "parseFloat (JStr ''n/a'') = NaN" by (simp add: parse_defs)
  have g: "groupThousands (decimalDigits (hundredths 12 div 100)) = ''12''"
    by (simp add: render_defs)
  from formatAmount_rendering [of "JStr ''12''" 12] p g
  obtain d1 d2 where "formatAmount (JStr ''12'') = ''12'' @ [CHR ''.'', d1, d2]" by auto
  moreover have "formatAmount (JStr ''12'') = ''12.00''"
    by (simp add: formatAmount_def parse_defs render_defs)
  moreover from formatAmount_rendering [of "JStr ''n/a''"] n
  have "formatAmount (JStr ''n/a'') = ''NaN''" by simp
  ultimately show ?thesis using p n by simp
qed

text \<open>
  C8 as stated fails: an invalid amount renders as "NaN", and the string "0" renders as
  "0.00", where the claim has the empty string for both.
\<close>

theorem formatAmount_invalid_counterexample:
  "formatAmount (JStr ''abc'') = ''NaN'' \<and> formatAmount (JStr ''0'') = ''0.00''"
  by (simp add: formatAmount_def parse_defs render_defs)
section \<open>The external link\<close>

text \<open>
  C10, as the code has it. The link is built from the item's \<^verbatim>\<open>uuid\<close> property alone:
  when \<^verbatim>\<open>uuid\<close> is a non-empty string, the record's electronicNumber is that string and
  its externalLink is the fixed base path, the uuid, "/share/" and the first 26 characters
  of the uuid; when \<^verbatim>\<open>uuid\<close> is absent or falsy the externalLink is empty, also when
  the electronicNumber was taken from the item's \<^verbatim>\<open>id\<close>.
\<close>

theorem externalLink_from_uuid:
  assumes "apiItemToInvoice perPage page (index, item) = Inr r"
    and "getProp item ''uuid'' = Inr uuid"
  shows "(truthy uuid \<longrightarrow>
            (\<exists>s. uuid = JStr s \<and> s \<noteq> [] \<and> electronicNumber r = JStr s \<and>
               externalLink r =
                 Some (''https://invoicing.eta.gov.eg/documents/'' @ s @ ''/share/'' @ take 26 s))) \<and>
         (\<not> truthy uuid \<longrightarrow> externalLink r = Some [])"
proof (cases "truthy uuid")
  case False
  with assms show ?thesis
    by (auto simp: apiItemToInvoice_def generateExternalLink_def bindE_def split: sum.splits)
next
  case True
  with assms obtain s where s: "uuid = JStr s"
    by (cases uuid)
      (auto simp: apiItemToInvoice_def generateExternalLink_def bindE_def split: sum.splits)
  with True assms show ?thesis
    by (auto simp: apiItemToInvoice_def generateExternalLink_def bindE_def jsOr_def
        split: sum.splits)
qed

theorem externalLink_from_uuid_witness:
  "apiItemToInvoice 50 1 (0, JObj [(''uuid'', JStr ''0123456789ABCDEFGHJKMNPQRSTVWXYZ'')]) =
     Inr \<lparr> serialNumber = 1, pageNumber = Some 1,
           electronicNumber = JStr ''0123456789ABCDEFGHJKMNPQRSTVWXYZ'',
           internalNumber = JStr [], totalAmount = [],
           externalLink = Some ''https://invoicing.eta.gov.eg/documents/0123456789ABCDEFGHJKMNPQRSTVWXYZ/share/0123456789ABCDEFGHJKMNPQRS'' \<rparr> \<and>
   getProp (JObj [(''uuid'', JStr ''0123456789ABCDEFGHJKMNPQRSTVWXYZ'')]) ''uuid'' =
     Inr (JStr ''0123456789ABCDEFGHJKMNPQRSTVWXYZ'') \<and>
   truthy (JStr ''0123456789ABCDEFGHJKMNPQRSTVWXYZ'')"
proof -
  let ?item = "JObj [(''uuid'', JStr ''0123456789ABCDEFGHJKMNPQRSTVWXYZ'')]"
  let ?r = "\<lparr> serialNumber = 1, pageNumber = Some 1,
           electronicNumber = JStr ''0123456789ABCDEFGHJKMNPQRSTVWXYZ'',
           internalNumber = JStr [], totalAmount = [],
           externalLink = Some ''https://invoicing.eta.gov.eg/documents/0123456789ABCDEFGHJKMNPQRSTVWXYZ/share/0123456789ABCDEFGHJKMNPQRS'' \<rparr>"
  have a: "apiItemToInvoice 50 1 (0, ?item) = Inr ?r"
    by (simp add: item_defs)
  have g: "getProp ?item ''uuid'' = Inr (JStr ''0123456789ABCDEFGHJKMNPQRSTVWXYZ'')"
    by simp
  from externalLink_from_uuid [OF a g] a g show ?thesis by simp
qed

text \<open>
  C10 as stated fails: an item with an \<^verbatim>\<open>id\<close> and no \<^verbatim>\<open>uuid\<close> gives a record whose
  electronicNumber is present and whose externalLink is empty.
\<close>

theorem externalLink_id_counterexample:
  "apiItemToInvoice 50 1 (0, JObj [(''id'', JStr ''A1'')]) =
     Inr \<lparr> serialNumber = 1, pageNumber = Some 1, electronicNumber = JStr ''A1'',
           internalNumber = JStr [], totalAmount = [], externalLink = Some [] \<rparr> \<and>
   truthy (JStr ''A1'')"
  by (simp add: item_defs)

section \<open>One page through the API\<close>

lemma mapE_total: "(\<And>x. f x = Inr (g x)) \<Longrightarrow> mapE f xs = Inr (map g xs)"
  by (induction xs) (simp_all add: bindE_def)

lemma fetchPageDataViaAPI_eq:
  "fetchPageDataViaAPI st net page =
     Inr (case fetchPageTry st net page of Inl e \<Rightarrow> [] | Inr records \<Rightarrow> records)"
  by (simp add: fetchPageDataViaAPI_def split: sum.splits)

text \<open>
  C6. \<^verbatim>\<open>fetchPageDataViaAPI\<close> returns for every page number; whenever its \<^verbatim>\<open>try\<close> block
  throws it returns the empty sequence; a response whose status is not 2xx makes the block
  throw; and awaiting the calls of a batch gives every page's own result, with the empty
  sequence in the place of each page that failed.
\<close>

theorem fetchPageDataViaAPI_never_raises:
  "(\<exists>records. fetchPageDataViaAPI st net page = Inr records) \<and>
   (\<forall>e. fetchPageTry st net page = Inl e \<longrightarrow> fetchPageDataViaAPI st net page = Inr []) \<and>
   (\<forall>url status body.
      buildAPIUrl st page = Inr url \<longrightarrow> net url = Response status body \<longrightarrow> \<not> responseOk status \<longrightarrow>
      fetchPageTry st net page = Inl (ApiRequestFailed status)) \<and>
   mapE (fetchPageDataViaAPI st net) batch =
     Inr (map (\<lambda>p. case fetchPageTry st net p of Inl e \<Rightarrow> [] | Inr records \<Rightarrow> records) batch)"
proof -
  have "mapE (fetchPageDataViaAPI st net) batch =
     Inr (map (\<lambda>p. case fetchPageTry st net p of Inl e \<Rightarrow> [] | Inr records \<Rightarrow> records) batch)"
    by (rule mapE_total) (rule fetchPageDataViaAPI_eq)
  then show ?thesis
    by (auto simp: fetchPageDataViaAPI_eq fetchPageTry_def bindE_def)
qed

theorem fetchPageDataViaAPI_never_raises_witness:
  "buildAPIUrl (apiScript 120 3) 2 =
     Inr \<lparr> requestBase = ''https://api.invoicing.eta.gov.eg/api/v1/documents/recent'',
           requestPage = 2, requestPageSize = 50 \<rparr> \<and>
   page2FailsNetwork \<lparr> requestBase = ''https://api.invoicing.eta.gov.eg/api/v1/documents/recent'',
                       requestPage = 2, requestPageSize = 50 \<rparr> = Response 500 None \<and>
   \<not> responseOk 500 \<and>
   fetchPageTry (apiScript 120 3) page2FailsNetwork 2 = Inl (ApiRequestFailed 500) \<and>
   fetchPageDataViaAPI (apiScript 120 3) page2FailsNetwork 2 = Inr [] \<and>
   mapE (fetchPageDataViaAPI (apiScript 120 3) page2FailsNetwork) [1, 2, 3] =
     Inr [[\<lparr> serialNumber = 1, pageNumber = Some 1, electronicNumber = JStr [],
              internalNumber = JStr [], totalAmount = [], externalLink = Some [] \<rparr>],
          [],
          [\<lparr> serialNumber = 101, pageNumber = Some 3, electronicNumber = JStr [],
              internalNumber = JStr [], totalAmount = [], externalLink = Some [] \<rparr>]]"
proof -
  let ?st = "apiScript 120 3"
  let ?req = "\<lparr> requestBase = ''https://api.invoicing.eta.gov.eg/api/v1/documents/recent'',
           requestPage = 2, requestPageSize = 50 \<rparr>"
  have u: "buildAPIUrl ?st 2 = Inr ?req"
    by (simp add: buildAPIUrl_def apiScript_def newScript_def)
  have n: "page2FailsNetwork ?req = Response 500 None"
    by (simp add: page2FailsNetwork_def)
  have k: "\<not> responseOk 500" by (simp add: responseOk_def)
  from fetchPageDataViaAPI_never_raises [of ?st page2FailsNetwork 2 "[1, 2, 3]"] u n k
  have t: "fetchPageTry ?st page2FailsNetwork 2 = Inl (ApiRequestFailed 500)"
    and e: "fetchPageDataViaAPI ?st page2FailsNetwork 2 = Inr []"
    and b: "mapE (fetchPageDataViaAPI ?st page2FailsNetwork) [1, 2, 3] =
     Inr (map (\<lambda>p. case fetchPageTry ?st page2FailsNetwork p of Inl e \<Rightarrow> [] | Inr records \<Rightarrow> records)
            [1, 2, 3])"
    by blast+
  have p1: "fetchPageTry ?st page2FailsNetwork 1 =
      Inr [\<lparr> serialNumber = 1, pageNumber = Some 1, electronicNumber = JStr [],
              internalNumber = JStr [], totalAmount = [], externalLink = Some [] \<rparr>]"
    by (simp add: fetch_defs item_defs apiScript_def newScript_def page2FailsNetwork_def
        bareItemNetwork_def)
  have p3: "fetchPageTry ?st page2FailsNetwork 3 =
      Inr [\<lparr> serialNumber = 101, pageNumber = Some 3, electronicNumber = JStr [],
              internalNumber = JStr [], totalAmount = [], externalLink = Some [] \<rparr>]"
    by (simp add: fetch_defs item_defs apiScript_def newScript_def page2FailsNetwork_def
        bareItemNetwork_def)
  from u n k t e b p1 p3 show ?thesis by simp
qed
section \<open>All pages through the API\<close>

lemma concat_apiBatches: "concat (apiBatches page lastPage) = [page..lastPage]"
proof (induction page lastPage rule: apiBatches.induct)
  case (1 page lastPage)
  show ?case
  proof (cases "page \<le> lastPage")
    case False
    then show ?thesis by (simp add: apiBatches.simps)
  next
    case True
    note le = this
    show ?thesis
    proof (cases "lastPage \<le> page + 9")
      case True
      with le 1 show ?thesis by (simp add: apiBatches.simps [of page lastPage])
    next
      case False
      have e: "page + 9 + 1 = page + 10" by simp
      from False have "[page..lastPage] = [page..page + 9] @ [page + 9 + 1..lastPage]"
        by (intro upto_split2) simp_all
      then have "[page..lastPage] = [page..page + 9] @ [page + 10..lastPage]"
        unfolding e .
      moreover from le False 1 have "concat (apiBatches (page + 10) lastPage) = [page + 10..lastPage]"
        by simp
      ultimately show ?thesis
        using le False by (simp add: apiBatches.simps [of page lastPage] min_def)
    qed
  qed
qed

lemma fetchCallEvents_known: "apiKnown st \<Longrightarrow> fetchCallEvents st page = [FetchStarted page]"
  by (auto simp: apiKnown_def fetchCallEvents_def buildAPIUrl_def split: option.splits)

lemma concat_singletons: "concat (map (\<lambda>x. [f x]) xs) = map f xs"
  by (induction xs) simp_all

text \<open>
  What \<^verbatim>\<open>getAllPagesViaAPI\<close> does: it returns, with the records of pages 1 to
  \<^verbatim>\<open>totalPages\<close> concatenated in page order, the empty sequence standing for a failed page.
\<close>

lemma getAllPagesViaAPI_eq:
  "getAllPagesViaAPI st net =
     (Returned \<lparr> success = True,
                 data = concat (map (\<lambda>p. case fetchPageTry st net p of Inl e \<Rightarrow> [] | Inr records \<Rightarrow> records)
                                  [1..totalPages st]),
                 totalProcessed =
                   Some (int (length (concat (map (\<lambda>p. case fetchPageTry st net p of Inl e \<Rightarrow> [] | Inr records \<Rightarrow> records)
                                  [1..totalPages st])))),
                 expectedTotal = Some (totalCount st), error = None \<rparr>,
      concat (map (fetchCallEvents st) [1..totalPages st]) @ [BatchAwaited [1..totalPages st]])"
proof -
  let ?g = "\<lambda>p. case fetchPageTry st net p of Inl e \<Rightarrow> [] | Inr records \<Rightarrow> records"
  have inner: "\<And>batch. mapE (fetchPageDataViaAPI st net) batch = Inr (map ?g batch)"
    by (rule mapE_total) (rule fetchPageDataViaAPI_eq)
  have outer: "mapE (mapE (fetchPageDataViaAPI st net)) (apiBatches 1 (totalPages st)) =
      Inr (map (map ?g) (apiBatches 1 (totalPages st)))"
    by (rule mapE_total) (rule inner)
  have flat: "concat (concat (map (map ?g) (apiBatches 1 (totalPages st)))) =
      concat (map ?g [1..totalPages st])"
    by (simp add: map_concat [symmetric] concat_apiBatches)
  show ?thesis
    by (simp add: getAllPagesViaAPI_def Let_def outer flat concat_apiBatches)
qed

text \<open>
  The trace of the API path: every fetch of every batch is started, in page order, before
  the one await completes.
\<close>

lemma getAllPagesViaAPI_trace:
  "apiKnown st \<Longrightarrow>
   snd (getAllPagesViaAPI st net) =
     map FetchStarted [1..totalPages st] @ [BatchAwaited [1..totalPages st]]"
proof -
  assume "apiKnown st"
  then have "fetchCallEvents st = (\<lambda>page. [FetchStarted page])"
    by (intro ext) (rule fetchCallEvents_known)
  then show ?thesis
    by (simp add: getAllPagesViaAPI_eq concat_singletons)
qed

lemma apiKnown_apiScript: "apiKnown (apiScript count pages)"
  by (simp add: apiKnown_def apiScript_def newScript_def)

lemma apiKnown_update [simp]:
  "apiKnown (st\<lparr>isProcessingAllPages := b\<rparr>) = apiKnown st"
  "apiKnown (st\<lparr>allPagesData := d\<rparr>) = apiKnown st"
  by (simp_all add: apiKnown_def)

lemma getAllPagesDataFast_api:
  "apiKnown st \<Longrightarrow>
   getAllPagesDataFast st env =
     (fst (getAllPagesViaAPI (st\<lparr>isProcessingAllPages := True, allPagesData := []\<rparr>) (network env)),
      st\<lparr>isProcessingAllPages := False, allPagesData := []\<rparr>,
      snd (getAllPagesViaAPI (st\<lparr>isProcessingAllPages := True, allPagesData := []\<rparr>) (network env)))"
  by (simp add: getAllPagesDataFast_def Let_def getAllPagesViaAPI_eq)

text \<open>
  C1 at a failing input. The script knows the API, one page is expected, and the API
  answers with one item that has no uuid, no id, no internalId and no totalAmount. The
  acquisition returns the record made from it, whose electronicNumber, internalNumber and
  totalAmount are all empty: \<^verbatim>\<open>parseAPIResponse\<close> never calls \<^verbatim>\<open>isValidInvoiceData\<close>.
\<close>

theorem api_path_returns_invalid_record:
  "fst (getAllPagesData (apiScript 1 1) (apiBrowser bareItemNetwork)) =
     Returned \<lparr> success = True,
                data = [\<lparr> serialNumber = 1, pageNumber = Some 1, electronicNumber = JStr [],
                          internalNumber = JStr [], totalAmount = [], externalLink = Some [] \<rparr>],
                totalProcessed = Some 1, expectedTotal = Some 1, error = None \<rparr> \<and>
   \<not> isValidInvoiceData
        \<lparr> serialNumber = 1, pageNumber = Some 1, electronicNumber = JStr [],
          internalNumber = JStr [], totalAmount = [], externalLink = Some [] \<rparr>"
proof -
  have p: "fetchPageTry (apiScript 1 1\<lparr>isProcessingAllPages := True, allPagesData := []\<rparr>)
             bareItemNetwork 1 =
      Inr [\<lparr> serialNumber = 1, pageNumber = Some 1, electronicNumber = JStr [],
              internalNumber = JStr [], totalAmount = [], externalLink = Some [] \<rparr>]"
    by (simp add: fetch_defs item_defs apiScript_def newScript_def bareItemNetwork_def)
  have t: "totalPages (apiScript 1 1) = 1" "totalCount (apiScript 1 1) = 1"
    by (simp_all add: apiScript_def newScript_def)
  show ?thesis
    by (simp add: getAllPagesData_def getAllPagesDataFast_api apiKnown_apiScript
        getAllPagesViaAPI_eq t p apiBrowser_def isValidInvoiceData_def jsOr_def)
qed

text \<open>
  C4 at a failing input. The script knows the API and 11 pages are expected, two batches
  of 10 and 1. The fetch of page 11, the second batch, is started before any await has
  completed: the only await of \<^verbatim>\<open>getAllPagesViaAPI\<close> follows its loops.
\<close>

theorem api_path_starts_every_batch_at_once:
  "snd (snd (getAllPagesData (apiScript 520 11) (apiBrowser bareItemNetwork))) =
     [FetchStarted 1, FetchStarted 2, FetchStarted 3, FetchStarted 4, FetchStarted 5,
      FetchStarted 6, FetchStarted 7, FetchStarted 8, FetchStarted 9, FetchStarted 10,
      FetchStarted 11,
      BatchAwaited [1, 2, 3, 4, 5, 6, 7, 8, 9, 10, 11]] \<and>
   apiBatches 1 (totalPages (apiScript 520 11)) = [[1, 2, 3, 4, 5, 6, 7, 8, 9, 10], [11]]"
proof -
  have t: "totalPages (apiScript 520 11) = 11"
    by (simp add: apiScript_def newScript_def)
  have u: "[1..11::int] = [1, 2, 3, 4, 5, 6, 7, 8, 9, 10, 11]"
    by (simp add: upto_rec1)
  have b: "apiBatches 1 11 = [[1, 2, 3, 4, 5, 6, 7, 8, 9, 10], [11]]"
    by (simp add: apiBatches.simps upto_rec1)
  have "snd (snd (getAllPagesData (apiScript 520 11) (apiBrowser bareItemNetwork))) =
      map FetchStarted [1..11] @ [BatchAwaited [1..11]]"
    by (simp add: getAllPagesData_def getAllPagesDataFast_api apiKnown_apiScript
        getAllPagesViaAPI_trace t)
  then show ?thesis by (simp add: u t b)
qed
section \<open>Validity on the markup paths\<close>

lemma documentRowToInvoice_valid:
  "r \<in> set (documentRowToInvoice perPage page entry) \<Longrightarrow> isValidInvoiceData r"
  by (cases entry) (auto simp: documentRowToInvoice_def Let_def isValidInvoiceData_def split: if_splits)

lemma extractDataFromDocument_valid:
  "r \<in> set (extractDataFromDocument perPage doc page) \<Longrightarrow> isValidInvoiceData r"
  by (auto simp: extractDataFromDocument_def dest: documentRowToInvoice_valid)

lemma scanRowToInvoice_valid: "r \<in> set (scanRowToInvoice entry) \<Longrightarrow> isValidInvoiceData r"
  by (cases entry) (auto simp: scanRowToInvoice_def Let_def split: if_splits)

lemma scanForInvoices_valid:
  "r \<in> set (invoiceData (scanForInvoices doc st)) \<Longrightarrow> isValidInvoiceData r"
  by (auto simp: scanForInvoices_def Let_def dest: scanRowToInvoice_valid)

section \<open>One page in an invisible frame\<close>

lemmas frame_defs = newFrame_def onLoad_def onLoadCatch_def onError_def onTimeout_def
  removeChild_def resolve_def clearTimeout_def Let_def

lemma handleEvent_first:
  "fst (handleEvent perPage page e newFrame) =
     \<lparr> attached = False, timerArmed = False,
       resolved = Some (case e of
                          LoadEvent (Some doc) \<Rightarrow> extractDataFromDocument perPage doc page
                        | _ \<Rightarrow> []),
       removals = 1 \<rparr> \<and>
   snd (handleEvent perPage page e newFrame) = None"
proof (cases e)
  case (LoadEvent iframeDoc)
  then show ?thesis by (cases iframeDoc) (simp_all add: frame_defs)
next
  case ErrorEvent
  then show ?thesis by (simp add: frame_defs)
next
  case TimeoutEvent
  then show ?thesis by (simp add: frame_defs)
qed

lemma loadPageInIframe_resolves:
  "loadPageInIframe perPage e page =
     Some (case e of
             LoadEvent (Some doc) \<Rightarrow> extractDataFromDocument perPage doc page
           | _ \<Rightarrow> [])"
  by (simp add: loadPageInIframe_def handleEvent_first)

lemma enabled_newFrame: "enabled e newFrame"
  by (cases e) (simp_all add: newFrame_def)

lemma nothing_enabled: "\<not> attached fr \<Longrightarrow> \<not> timerArmed fr \<Longrightarrow> \<not> enabled e fr"
  by (cases e) simp_all

text \<open>
  C7. Whatever reaches the frame first (a load whose document can be read, a load whose
  document cannot, an error, or the timeout), handling it removes the frame from the body
  exactly once, disarms the timer, lets no error escape and resolves the promise; with the
  empty sequence when it was the timeout. After that the browser can deliver nothing more
  to the frame, so no second teardown runs; and in the frame's first state the timeout can
  be delivered, so some event does reach it.
\<close>

theorem loadPageInIframe_cleans_up:
  assumes "deliver perPage page (e # es) newFrame = Some fr"
  shows "es = [] \<and> \<not> attached fr \<and> removals fr = 1 \<and> \<not> timerArmed fr \<and>
         snd (handleEvent perPage page e newFrame) = None \<and>
         (\<exists>records. resolved fr = Some records) \<and>
         resolved fr = loadPageInIframe perPage e page \<and>
         (e = TimeoutEvent \<longrightarrow> resolved fr = Some []) \<and>
         (\<forall>e'. \<not> enabled e' fr) \<and>
         enabled TimeoutEvent newFrame"
proof -
  let ?fr = "fst (handleEvent perPage page e newFrame)"
  have off: "\<not> attached ?fr" "\<not> timerArmed ?fr" "removals ?fr = 1"
    by (simp_all add: handleEvent_first)
  from assms have rest: "deliver perPage page es ?fr = Some fr"
    by (simp add: enabled_newFrame)
  have "es = []"
  proof (cases es)
    case Nil
    then show ?thesis .
  next
    case (Cons e' es')
    with rest off show ?thesis by (simp add: nothing_enabled)
  qed
  with rest have fr: "fr = ?fr" by simp
  have t: "e = TimeoutEvent \<longrightarrow> resolved ?fr = Some []"
    by (simp add: frame_defs)
  from off fr t \<open>es = []\<close> show ?thesis
    by (simp add: handleEvent_first loadPageInIframe_resolves nothing_enabled enabled_newFrame)
qed

theorem loadPageInIframe_cleans_up_witness:
  "deliver 50 3 [TimeoutEvent] newFrame =
     Some \<lparr> attached = False, timerArmed = False, resolved = Some [], removals = 1 \<rparr> \<and>
   loadPageInIframe 50 TimeoutEvent 3 = Some [] \<and>
   deliver 50 3 [TimeoutEvent, LoadEvent None] newFrame = None"
proof -
  have d: "deliver 50 3 [TimeoutEvent] newFrame =
     Some \<lparr> attached = False, timerArmed = False, resolved = Some [], removals = 1 \<rparr>"
    by (simp add: frame_defs)
  have n: "deliver 50 3 [TimeoutEvent, LoadEvent None] newFrame = None"
    by (simp add: frame_defs)
  from loadPageInIframe_cleans_up [OF d] d n show ?thesis by simp
qed
section \<open>The frame loop\<close>

lemma awaitAll_settled: "awaitAll (map (\<lambda>x. Some (g x)) xs) = Some (map g xs)"
  by (induction xs) simp_all

lemma batchPromises_settle:
  "awaitAll (map (\<lambda>(index, url). loadPageInIframe (resultsPerPage st) (frameEvent env url) (int i + int index + 1)) xs) =
     Some (map (\<lambda>(index, url). frameRecords st env url (int i + int index + 1)) xs)"
proof -
  have "(\<lambda>(index, url). loadPageInIframe (resultsPerPage st) (frameEvent env url) (int i + int index + 1)) =
        (\<lambda>x. Some ((\<lambda>(index, url). frameRecords st env url (int i + int index + 1)) x))"
    by (auto simp: loadPageInIframe_resolves frameRecords_def fun_eq_iff)
  then show ?thesis by (simp only: awaitAll_settled)
qed

text \<open>A turn of the loop, whatever the callback does.\<close>

lemma loadBatch_eq:
  "loadBatch st env urls i =
     (case progressCallback st of
        None \<Rightarrow>
          (Completed, batchRecords st env urls i,
           map FrameAttached (batchPages urls i) @ [BatchAwaited (batchPages urls i)])
      | Some callback \<Rightarrow>
          (case callback (batchReport urls i) of None \<Rightarrow> Completed | Some e \<Rightarrow> Threw e,
           batchRecords st env urls i,
           map FrameAttached (batchPages urls i) @
           [BatchAwaited (batchPages urls i), ProgressReported (batchReport urls i)]))"
  by (simp add: loadBatch_def Let_def batchPromises_settle batchRecords_def batchPages_def
      batchReport_def split: option.splits)

lemma loadBatch_settles: "fst (loadBatch st env urls i) \<noteq> Pending"
  by (simp add: loadBatch_eq split: option.splits)

lemma loadBatches_settle: "fst (loadBatches st env urls i results tr) \<noteq> Pending"
proof (induction st env urls i results tr rule: loadBatches.induct)
  case (1 st env urls i results tr)
  show ?case
  proof (cases "i < length urls")
    case False
    then show ?thesis by (simp add: loadBatches.simps)
  next
    case True
    obtain status pushed evs where b: "loadBatch st env urls i = (status, pushed, evs)"
      by (cases "loadBatch st env urls i")
    with loadBatch_settles [of st env urls i] have np: "status \<noteq> Pending" by simp
    show ?thesis
    proof (cases status)
      case Completed
      with True b 1 show ?thesis by (simp add: loadBatches.simps [of st env urls i])
    next
      case (Threw e)
      with True b show ?thesis by (simp add: loadBatches.simps [of st env urls i])
    next
      case Pending
      with np show ?thesis by simp
    qed
  qed
qed

section \<open>Progress\<close>











section \<open>The orchestration\<close>

lemma loadPagesInParallel_settles: "fst (loadPagesInParallel st env urls) \<noteq> Hangs"
proof -
  obtain status results tr where l: "loadBatches st env urls 0 [] [] = (status, results, tr)"
    by (cases "loadBatches st env urls 0 [] []")
  with loadBatches_settle [of st env urls 0 "[]" "[]"] have "status \<noteq> Pending" by simp
  with l show ?thesis by (cases status) (simp_all add: loadPagesInParallel_def)
qed

lemma getAllPagesDataFast_settles: "fst (getAllPagesDataFast st env) \<noteq> Hangs"
proof (cases "apiKnown st")
  case True
  then show ?thesis by (simp add: getAllPagesDataFast_api getAllPagesViaAPI_eq)
next
  case False
  let ?run = "getAllPagesViaOptimizedDOM (st\<lparr>isProcessingAllPages := True, allPagesData := []\<rparr>) env"
  have "fst ?run \<noteq> Hangs"
    by (simp add: getAllPagesViaOptimizedDOM_def loadPagesInParallel_settles)
  with False show ?thesis
    by (cases "fst ?run") (simp_all add: getAllPagesDataFast_def Let_def)
qed

text \<open>
  What holds of every run of \<^verbatim>\<open>getAllPagesDataFast\<close>: it returns, with the flag
  \<^verbatim>\<open>isProcessingAllPages\<close> cleared; and a returned failure carries the error and no data.
\<close>

lemma getAllPagesDataFast_returns:
  "\<exists>r. fst (getAllPagesDataFast st env) = Returned r \<and>
       \<not> isProcessingAllPages (fst (snd (getAllPagesDataFast st env))) \<and>
       (\<not> success r \<longrightarrow> data r = [] \<and> error r \<noteq> None)"
proof -
  let ?st2 = "st\<lparr>isProcessingAllPages := True, allPagesData := []\<rparr>"
  let ?run = "if apiKnown ?st2 then getAllPagesViaAPI ?st2 (network env)
              else getAllPagesViaOptimizedDOM ?st2 env"
  have run: "fst ?run \<noteq> Hangs"
    by (simp add: getAllPagesViaAPI_eq getAllPagesViaOptimizedDOM_def loadPagesInParallel_settles)
  have ok: "\<And>r. fst ?run = Returned r \<Longrightarrow> success r"
    by (auto simp: getAllPagesViaAPI_eq getAllPagesViaOptimizedDOM_def loadPagesInParallel_def
        split: if_splits prod.splits run_status.splits)
  show ?thesis
  proof (cases "fst ?run")
    case (Returned r)
    with ok [OF Returned] show ?thesis
      by (simp add: getAllPagesDataFast_def Let_def)
  next
    case (Raised e)
    then show ?thesis by (simp add: getAllPagesDataFast_def Let_def)
  next
    case Hangs
    with run show ?thesis by simp
  qed
qed

text \<open>
  C5 at a failing input. No API is known, one page is expected, its frame loads a document
  with one valid row, and the progress callback throws. When the callback throws, the loop
  of \<^verbatim>\<open>loadPagesInParallel\<close> has pushed the record of page 1 to its local \<^verbatim>\<open>results\<close>;
  the failure object that \<^verbatim>\<open>getAllPagesDataFast\<close> returns carries \<^verbatim>\<open>this.allPagesData\<close>,
  which was set to \<^verbatim>\<open>[]\<close> at the start and is never added to.
\<close>

theorem failure_drops_accumulated_records:
  "loadBatches
     (newScript\<lparr>totalCount := 1, totalPages := 1, progressCallback := Some throwingCallback,
                isProcessingAllPages := True, allPagesData := []\<rparr>)
     (frameBrowser (\<lambda>url. LoadEvent (Some oneRowDocument)))
     [(''https://invoicing.eta.gov.eg/documents'', 1)] 0 [] [] =
     (Threw (Thrown ''Extension context invalidated.''),
      [\<lparr> serialNumber = 1, pageNumber = Some 1, electronicNumber = JStr ''ABC123'',
          internalNumber = JStr [], totalAmount = [], externalLink = None \<rparr>],
      [FrameAttached 1, BatchAwaited [1],
       ProgressReported \<lparr> reportedPage = 1, reportedTotal = 1, percentage = 100 \<rparr>]) \<and>
   fst (getAllPagesData
          (newScript\<lparr>totalCount := 1, totalPages := 1, progressCallback := Some throwingCallback\<rparr>)
          (frameBrowser (\<lambda>url. LoadEvent (Some oneRowDocument)))) =
     Returned \<lparr> success = False, data = [], totalProcessed = None, expectedTotal = None,
                error = Some (Thrown ''Extension context invalidated.'') \<rparr>"
proof -
  let ?st = "newScript\<lparr>totalCount := 1, totalPages := 1, progressCallback := Some throwingCallback\<rparr>"
  let ?st2 = "newScript\<lparr>totalCount := 1, totalPages := 1, progressCallback := Some throwingCallback,
                isProcessingAllPages := True, allPagesData := []\<rparr>"
  let ?env = "frameBrowser (\<lambda>url. LoadEvent (Some oneRowDocument))"
  let ?urls = "[(''https://invoicing.eta.gov.eg/documents'', 1 :: int)]"
  have rows: "extractDataFromDocument 50 oneRowDocument 1 =
      [\<lparr> serialNumber = 1, pageNumber = Some 1, electronicNumber = JStr ''ABC123'',
          internalNumber = JStr [], totalAmount = [], externalLink = None \<rparr>]"
    by (simp add: extractDataFromDocument_def gridRows_def oneRowDocument_def enumerate_eq_zip
        documentRowToInvoice_def extractDataFromRow_def extractUsingDataAttributes_def
        extractCell_def trim_def isSpace_def isValidInvoiceData_def jsOr_def)
  have turn: "loadBatch ?st2 ?env ?urls 0 =
      (Threw (Thrown ''Extension context invalidated.''),
       [\<lparr> serialNumber = 1, pageNumber = Some 1, electronicNumber = JStr ''ABC123'',
          internalNumber = JStr [], totalAmount = [], externalLink = None \<rparr>],
       [FrameAttached 1, BatchAwaited [1],
        ProgressReported \<lparr> reportedPage = 1, reportedTotal = 1, percentage = 100 \<rparr>])"
    by (simp add: loadBatch_eq batchRecords_def frameRecords_def batchPages_def batchReport_def
        frameBrowser_def newScript_def throwingCallback_def enumerate_eq_zip rows)
  have loop: "loadBatches ?st2 ?env ?urls 0 [] [] =
      (Threw (Thrown ''Extension context invalidated.''),
       [\<lparr> serialNumber = 1, pageNumber = Some 1, electronicNumber = JStr ''ABC123'',
          internalNumber = JStr [], totalAmount = [], externalLink = None \<rparr>],
       [FrameAttached 1, BatchAwaited [1],
        ProgressReported \<lparr> reportedPage = 1, reportedTotal = 1, percentage = 100 \<rparr>])"
    by (simp add: loadBatches.simps [of ?st2 ?env ?urls 0] turn)
  have urls: "generateAllPageUrls ?st2 ?env = ?urls"
    by (simp add: generateAllPageUrls_def frameBrowser_def)
  have api: "\<not> apiKnown ?st" by (simp add: apiKnown_def newScript_def)
  have st2: "?st\<lparr>isProcessingAllPages := True, allPagesData := []\<rparr> = ?st2" by simp
  have "fst (getAllPagesData ?st ?env) =
      Returned \<lparr> success = False, data = [], totalProcessed = None, expectedTotal = None,
                error = Some (Thrown ''Extension context invalidated.'') \<rparr>"
    by (simp add: getAllPagesData_def getAllPagesDataFast_def Let_def api
        getAllPagesViaOptimizedDOM_def loadPagesInParallel_def urls loop)
  with loop show ?thesis by simp
qed
section \<open>Pagination\<close>

lemma ceiling_of_int_div: "\<lceil>(of_int a :: rat) / of_int b\<rceil> = - ((- a) div b)"
proof -
  have "- ((of_int a :: rat) / of_int b) = of_int (- a) / of_int b" by simp
  then show ?thesis by (simp only: ceiling_def floor_divide_of_int_eq)
qed

lemma extractPaginationInfo_fields:
  "totalCount (extractPaginationInfo doc st) = extractTotalCount doc \<and>
   resultsPerPage (extractPaginationInfo doc st) = 50 \<and>
   totalPages (extractPaginationInfo doc st) = \<lceil>(of_int (extractTotalCount doc) :: rat) / 50\<rceil>"
  by (simp add: extractPaginationInfo_def Let_def)

lemma extractTotalCount_results120: "extractTotalCount results120Document = 120"
  by (simp add: extractTotalCount_def results120Document_def matchResultsAt_def lowerAscii_def
      isSpace_def isDigit_def digitsValue_def)

lemma loadBatch_visibleDocument:
  "loadBatch st (env\<lparr>visibleDocument := doc\<rparr>) urls i = loadBatch st env urls i"
  by (simp add: loadBatch_def)

lemma loadBatches_visibleDocument:
  "loadBatches st (env\<lparr>visibleDocument := doc\<rparr>) urls i results tr =
   loadBatches st env urls i results tr"
proof (induction st env urls i results tr rule: loadBatches.induct)
  case (1 st env urls i results tr)
  show ?case
  proof (cases "i < length urls")
    case False
    then show ?thesis
      by (simp add: loadBatches.simps [of st _ urls i])
  next
    case True
    obtain status pushed evs where b: "loadBatch st env urls i = (status, pushed, evs)"
      by (cases "loadBatch st env urls i")
    show ?thesis
    proof (cases status)
      case Completed
      with True b "1.IH" [OF True b [symmetric] Completed refl] show ?thesis
        by (simp add: loadBatches.simps [of st _ urls i] loadBatch_visibleDocument)
    next
      case (Threw e)
      with True b show ?thesis
        by (simp add: loadBatches.simps [of st _ urls i] loadBatch_visibleDocument)
    next
      case Pending
      with True b show ?thesis
        by (simp add: loadBatches.simps [of st _ urls i] loadBatch_visibleDocument)
    qed
  qed
qed

lemma getAllPagesDataFast_visibleDocument:
  "getAllPagesDataFast st (env\<lparr>visibleDocument := doc\<rparr>) = getAllPagesDataFast st env"
proof -
  have dom: "getAllPagesViaOptimizedDOM s (env\<lparr>visibleDocument := doc\<rparr>) =
        getAllPagesViaOptimizedDOM s env" for s
    by (simp add: getAllPagesViaOptimizedDOM_def loadPagesInParallel_def generateAllPageUrls_def
        loadBatches_visibleDocument)
  have net: "network (env\<lparr>visibleDocument := doc\<rparr>) = network env" by simp
  show ?thesis
    unfolding getAllPagesDataFast_def dom net by (rule refl)
qed

lemma getAllPagesDataFast_keeps_pagination:
  "totalCount (fst (snd (getAllPagesDataFast st env))) = totalCount st \<and>
   totalPages (fst (snd (getAllPagesDataFast st env))) = totalPages st"
  by (simp add: getAllPagesDataFast_def Let_def split: outcome.splits)

lemma getAllPagesDataFast_expectedTotal:
  "fst (getAllPagesDataFast st env) = Returned r \<Longrightarrow> success r \<Longrightarrow>
   expectedTotal r = Some (totalCount st)"
  by (auto simp: getAllPagesDataFast_def Let_def getAllPagesViaAPI_eq
      getAllPagesViaOptimizedDOM_def loadPagesInParallel_def
      split: outcome.splits if_splits prod.splits run_status.splits)

text \<open>
  C3, as the code has it. \<^verbatim>\<open>getAllPagesData\<close> does not inspect the rendered page: its
  outcome, the state it leaves and its trace are the same whatever the visible document
  shows. It leaves \<^verbatim>\<open>totalCount\<close> and \<^verbatim>\<open>totalPages\<close> as stored; on the API path it fetches
  exactly the pages 1 to the stored \<^verbatim>\<open>totalPages\<close>; a successful result reports the stored
  \<^verbatim>\<open>totalCount\<close> as \<^verbatim>\<open>expectedTotal\<close>. The stored values are written by the visible-page scan,
  which sets \<^verbatim>\<open>resultsPerPage\<close> to 50 and \<^verbatim>\<open>totalPages\<close> to the ceiling of
  \<^verbatim>\<open>totalCount / resultsPerPage\<close>: a page that shows "Results: 120" gives 3.
\<close>

theorem acquisition_uses_stored_pagination:
  "getAllPagesData st (env\<lparr>visibleDocument := doc\<rparr>) = getAllPagesData st env \<and>
   totalCount (fst (snd (getAllPagesData st env))) = totalCount st \<and>
   totalPages (fst (snd (getAllPagesData st env))) = totalPages st \<and>
   (apiKnown st \<longrightarrow>
      snd (snd (getAllPagesData st env)) =
        map FetchStarted [1..totalPages st] @ [BatchAwaited [1..totalPages st]]) \<and>
   (\<forall>r. fst (getAllPagesData st env) = Returned r \<longrightarrow> success r \<longrightarrow>
      expectedTotal r = Some (totalCount st)) \<and>
   totalCount (scanForInvoices doc st) = extractTotalCount doc \<and>
   resultsPerPage (scanForInvoices doc st) = 50 \<and>
   totalPages (scanForInvoices doc st) = \<lceil>(of_int (extractTotalCount doc) :: rat) / 50\<rceil> \<and>
   extractTotalCount results120Document = 120 \<and>
   totalPages (scanForInvoices results120Document st) = 3"
proof -
  have scan: "totalCount (scanForInvoices d st) = extractTotalCount d \<and>
      resultsPerPage (scanForInvoices d st) = 50 \<and>
      totalPages (scanForInvoices d st) = \<lceil>(of_int (extractTotalCount d) :: rat) / 50\<rceil>" for d
    using extractPaginationInfo_fields [of d st] by (simp add: scanForInvoices_def Let_def)
  have "\<lceil>(of_int 120 :: rat) / of_int 50\<rceil> = 3"
    by (simp only: ceiling_of_int_div)
  then have ex: "totalPages (scanForInvoices results120Document st) = 3"
    using scan [of results120Document] by (simp add: extractTotalCount_results120)
  have api: "apiKnown st \<longrightarrow>
      snd (snd (getAllPagesData st env)) =
        map FetchStarted [1..totalPages st] @ [BatchAwaited [1..totalPages st]]"
    by (simp add: getAllPagesData_def getAllPagesDataFast_api getAllPagesViaAPI_trace)
  show ?thesis
    using scan [of doc] ex api getAllPagesDataFast_keeps_pagination [of st env]
      getAllPagesDataFast_expectedTotal [of st env]
    by (simp add: getAllPagesData_def getAllPagesDataFast_visibleDocument
        extractTotalCount_results120)
qed

theorem acquisition_uses_stored_pagination_witness:
  "apiKnown (apiScript 120 3) \<and>
   snd (snd (getAllPagesData (apiScript 120 3) (apiBrowser page2FailsNetwork))) =
     [FetchStarted 1, FetchStarted 2, FetchStarted 3, BatchAwaited [1, 2, 3]] \<and>
   (case fst (getAllPagesData (apiScript 120 3) (apiBrowser page2FailsNetwork)) of
      Returned r \<Rightarrow> success r \<and> expectedTotal r = Some 120
    | Raised e \<Rightarrow> False
    | Hangs \<Rightarrow> False)"
proof -
  let ?st = "apiScript 120 3"
  let ?env = "apiBrowser page2FailsNetwork"
  have k: "apiKnown ?st" by (rule apiKnown_apiScript)
  have t: "totalPages ?st = 3" "totalCount ?st = 120"
    by (simp_all add: apiScript_def newScript_def)
  have u: "[1..3::int] = [1, 2, 3]" by (simp add: upto_rec1)
  obtain r where r: "fst (getAllPagesData ?st ?env) = Returned r" and s: "success r"
    by (simp add: getAllPagesData_def getAllPagesDataFast_api k getAllPagesViaAPI_eq)
  from acquisition_uses_stored_pagination [where st = ?st and env = ?env] k r s
  have "snd (snd (getAllPagesData ?st ?env)) =
        map FetchStarted [1..totalPages ?st] @ [BatchAwaited [1..totalPages ?st]]"
    and "expectedTotal r = Some (totalCount ?st)"
    by blast+
  with k r s show ?thesis by (simp add: t u)
qed

text \<open>
  C3 as stated fails. The scan ran before the portal had rendered its results and stored
  \<^verbatim>\<open>totalCount = 0\<close> and \<^verbatim>\<open>totalPages = 0\<close>; the page now shows "Results: 120", which an
  inspection would turn into 3 pages. \<^verbatim>\<open>getAllPagesData\<close> loads no page at all and reports
  \<^verbatim>\<open>expectedTotal = 0\<close>.
\<close>

theorem acquisition_not_refreshed_counterexample:
  "totalCount earlyScannedScript = 0 \<and> totalPages earlyScannedScript = 0 \<and>
   totalCount (extractPaginationInfo results120Document earlyScannedScript) = 120 \<and>
   totalPages (extractPaginationInfo results120Document earlyScannedScript) = 3 \<and>
   fst (getAllPagesData earlyScannedScript
          (frameBrowser (\<lambda>url. LoadEvent (Some oneRowDocument))\<lparr>visibleDocument := results120Document\<rparr>)) =
     Returned \<lparr> success = True, data = [], totalProcessed = Some 0, expectedTotal = Some 0,
                error = None \<rparr> \<and>
   snd (snd (getAllPagesData earlyScannedScript
          (frameBrowser (\<lambda>url. LoadEvent (Some oneRowDocument))\<lparr>visibleDocument := results120Document\<rparr>))) = []"
proof -
  have st: "earlyScannedScript = newScript\<lparr>totalPages := 0\<rparr>"
    by (simp add: earlyScannedScript_def scanForInvoices_def extractPaginationInfo_def Let_def
        extractTotalCount_def extractCurrentPage_def emptyDocument_def getVisibleInvoiceRows_def
        newScript_def)
  have "\<lceil>(of_int 120 :: rat) / of_int 50\<rceil> = 3"
    by (simp only: ceiling_of_int_div)
  then have p: "totalPages (extractPaginationInfo results120Document earlyScannedScript) = 3"
    using extractPaginationInfo_fields [of results120Document earlyScannedScript]
    by (simp add: extractTotalCount_results120)
  have c: "totalCount (extractPaginationInfo results120Document earlyScannedScript) = 120"
    using extractPaginationInfo_fields [of results120Document earlyScannedScript]
    by (simp add: extractTotalCount_results120)
  have api: "\<not> apiKnown (newScript\<lparr>totalPages := 0\<rparr>)"
    by (simp add: apiKnown_def newScript_def)
  have run: "getAllPagesViaOptimizedDOM
        (newScript\<lparr>totalPages := 0, isProcessingAllPages := True, allPagesData := []\<rparr>) env =
      (Returned \<lparr> success = True, data = [], totalProcessed = Some 0, expectedTotal = Some 0,
                  error = None \<rparr>, [])" for env
    by (simp add: getAllPagesViaOptimizedDOM_def loadPagesInParallel_def generateAllPageUrls_def
        loadBatches.simps newScript_def)
  show ?thesis
    using p c by (simp add: st getAllPagesData_def getAllPagesDataFast_def Let_def api run)
      (simp add: newScript_def)
qed
section \<open>Serial numbers\<close>

















end
